theory Spec2Isabelle
  imports Complex_Main
begin

section \<open>Conventions of the embedding\<close>

text \<open>
  The Python sources compute with IEEE double precision numbers (Python \<open>float\<close>, numpy
  \<open>float64\<close>). The embedding idealises them as \<^typ>\<open>real\<close>: rounding and overflow are not
  modelled. Where the floating point computation divides by zero, numpy and Python
  produce \<open>inf\<close> or \<open>nan\<close> (with a warning) and go on; no real number stands for these,
  so a function whose result is a real number or a list of real numbers stops there with
  the outcome \<open>NonFinite\<close>. \<open>SimpleZTS.reparametrize\<close> hands such values on to the spline
  functions and writes what they return into the path; there a number is a
  \<open>float\<close>, a real number or \<open>nan\<close>. Every Python exception that the modelled code can
  raise is an outcome of its own.

  A one-dimensional numpy array is a \<^typ>\<open>real list\<close>; a Python list of arrays (the
  histories kept by the optimizer) is a list of such lists. Python's \<open>int\<close> is
  \<^typ>\<open>int\<close>. Calls to the logger are left out: they do not change any value.
\<close>

datatype error =
    IndexError
  | ValueError
  | KeyError
  | AssertionError
  | UnboundLocalError
  | AttributeError
  | TypeError
  | OSError
  | NonFinite

type_synonym 'a result = "error + 'a"

definition bind :: "'a result \<Rightarrow> ('a \<Rightarrow> 'b result) \<Rightarrow> 'b result" where
  "bind m f = (case m of Inl e \<Rightarrow> Inl e | Inr x \<Rightarrow> f x)"

subsection \<open>Python and numpy primitives\<close>

text \<open>\<open>xs[i]\<close> on a Python list: a negative index counts from the end, an index out of
  range raises \<open>IndexError\<close>.\<close>

definition py_index :: "'a list \<Rightarrow> int \<Rightarrow> 'a result" where
  "py_index xs i =
     (if 0 \<le> i \<and> i < int (length xs) then Inr (xs ! nat i)
      else if i < 0 \<and> - int (length xs) \<le> i then Inr (xs ! nat (int (length xs) + i))
      else Inl IndexError)"

text \<open>\<open>np.linalg.norm\<close> of a one-dimensional array: the Euclidean norm.\<close>

definition linalg_norm :: "real list \<Rightarrow> real" where
  "linalg_norm xs = sqrt (\<Sum>x\<leftarrow>xs. x\<^sup>2)"

text \<open>\<open>a / c\<close> and \<open>c * a\<close> for an array \<open>a\<close> and a scalar \<open>c\<close>.\<close>

definition np_div_scalar :: "real list \<Rightarrow> real \<Rightarrow> real list result" where
  "np_div_scalar xs c =
     (if c = 0 \<and> xs \<noteq> [] then Inl NonFinite else Inr (map (\<lambda>x. x / c) xs))"

definition np_scale :: "real \<Rightarrow> real list \<Rightarrow> real list" where
  "np_scale c xs = map (\<lambda>x. c * x) xs"

text \<open>A binary operation on two one-dimensional arrays follows numpy's broadcasting:
  equal lengths combine elementwise, an array of length one is stretched over the
  other, anything else raises \<open>ValueError\<close>.\<close>

definition np_binop :: "(real \<Rightarrow> real \<Rightarrow> real) \<Rightarrow> real list \<Rightarrow> real list \<Rightarrow> real list result" where
  "np_binop f xs ys =
     (if length xs = length ys then Inr (map2 f xs ys)
      else if length xs = 1 then Inr (map (\<lambda>y. f (hd xs) y) ys)
      else if length ys = 1 then Inr (map (\<lambda>x. f x (hd ys)) xs)
      else Inl ValueError)"

definition np_add :: "real list \<Rightarrow> real list \<Rightarrow> real list result" where
  "np_add = np_binop (+)"

definition np_sub :: "real list \<Rightarrow> real list \<Rightarrow> real list result" where
  "np_sub = np_binop (-)"

text \<open>Division of two floating point scalars.\<close>

definition float_div :: "real \<Rightarrow> real \<Rightarrow> real result" where
  "float_div a b = (if b = 0 then Inl NonFinite else Inr (a / b))"

section \<open>StringOptimizer\<close>

text \<open>
  The path geometry as the optimizer reads it in one cycle: \<open>geometry.coords\<close>,
  \<open>geometry.forces\<close>, \<open>geometry.energy\<close>, \<open>geometry.fully_grown\<close> and
  \<open>geometry.coord_type\<close>. The forces are the value read in line 71 of
  \<open>StringOptimizer.optimize\<close>, after the optional alignment.
\<close>

record geometry =
  geom_coords :: "real list"
  geom_forces :: "real list"
  geom_energy :: real
  fully_grown :: bool
  coord_type :: string

text \<open>
  The optimizer object. The fields \<open>max_step\<close>, \<open>align\<close>, \<open>is_cos\<close>, \<open>cur_cycle\<close> and the
  histories \<open>coords\<close>, \<open>energies\<close>, \<open>forces\<close>, \<open>steps\<close> belong to the base class
  \<open>Optimizer\<close>; \<open>gamma\<close>, \<open>stop_in_when_full\<close>, \<open>stop_in\<close> and \<open>is_cart_opt\<close> are set by
  \<open>StringOptimizer.__init__\<close>.
\<close>

record string_optimizer =
  max_step :: real
  align :: bool
  is_cos :: bool
  cur_cycle :: nat
  coords :: "real list list"
  energies :: "real list"
  forces :: "real list list"
  steps :: "real list list"
  gamma :: real
  stop_in_when_full :: int
  stop_in :: int
  is_cart_opt :: bool

text \<open>
  \<open>StringOptimizer.__init__\<close> (lines 17-31). The argument \<open>base\<close> is the object as the
  constructor of the base class leaves it (line 19).
\<close>

definition StringOptimizer_init ::
  "string_optimizer \<Rightarrow> geometry \<Rightarrow> real \<Rightarrow> int \<Rightarrow> string_optimizer result" where
  "StringOptimizer_init base geom gamma_arg stop_in_when_full_arg =
     (if \<not> is_cos base then Inl AssertionError
      else Inr (base\<lparr>gamma := gamma_arg,
                     stop_in_when_full := stop_in_when_full_arg,
                     stop_in := stop_in_when_full_arg + 1,
                     is_cart_opt := (coord_type geom = ''cart'')\<rparr>))"

text \<open>\<open>StringOptimizer.restrict_step_components\<close> (lines 40-45).\<close>

definition restrict_step_components :: "real \<Rightarrow> real list \<Rightarrow> real list" where
  "restrict_step_components max_step_val step_vec =
     map (\<lambda>s. if \<bar>s\<bar> > max_step_val then sgn s * max_step_val else s) step_vec"

text \<open>
  \<open>StringOptimizer.check_convergence\<close> (lines 47-57). The verdict of the base class
  (line 49) is the argument \<open>converged\<close>. The function returns the verdict and the
  optimizer with its counter updated; \<open>full_stop\<close> is the local variable of line 55,
  read on the updated counter.
\<close>

definition count_down :: "string_optimizer \<Rightarrow> geometry \<Rightarrow> string_optimizer" where
  "count_down opt geom =
     (if fully_grown geom then opt\<lparr>stop_in := stop_in opt - 1\<rparr> else opt)"

definition full_stop :: "string_optimizer \<Rightarrow> geometry \<Rightarrow> bool" where
  "full_stop opt geom = (fully_grown geom \<and> stop_in (count_down opt geom) = 0)"

definition check_convergence ::
  "string_optimizer \<Rightarrow> geometry \<Rightarrow> bool \<Rightarrow> bool \<times> string_optimizer" where
  "check_convergence opt geom converged =
     (full_stop opt geom \<or> converged, count_down opt geom)"

text \<open>
  The optimizer after \<open>check_convergence\<close> has run once in each of the cycles
  \<open>0, \<dots>, length cs - 1\<close>, on the geometry and the base verdict of that cycle.
\<close>

fun after_cycles :: "string_optimizer \<Rightarrow> (geometry \<times> bool) list \<Rightarrow> string_optimizer" where
  "after_cycles opt [] = opt"
| "after_cycles opt ((geom, converged) # cs) =
     after_cycles (snd (check_convergence opt geom converged)) cs"

text \<open>\<open>full_stop\<close> and the verdict of cycle \<open>k\<close> of such a run.\<close>

definition full_stop_at :: "string_optimizer \<Rightarrow> (geometry \<times> bool) list \<Rightarrow> nat \<Rightarrow> bool" where
  "full_stop_at opt cs k = full_stop (after_cycles opt (take k cs)) (fst (cs ! k))"

definition verdict_at :: "string_optimizer \<Rightarrow> (geometry \<times> bool) list \<Rightarrow> nat \<Rightarrow> bool" where
  "verdict_at opt cs k =
     fst (check_convergence (after_cycles opt (take k cs)) (fst (cs ! k)) (snd (cs ! k)))"

text \<open>
  \<open>StringOptimizer.optimize\<close> (lines 59-92). \<open>string_size_changed\<close> is lines 62-65: the
  comparison with the last but one entry of the coordinate history, \<open>True\<close> when that
  entry does not exist.
\<close>

definition string_size_changed :: "string_optimizer \<Rightarrow> geometry \<Rightarrow> bool" where
  "string_size_changed opt geom =
     (case py_index (coords opt) (- 2) of
        Inl e \<Rightarrow> True
      | Inr prev \<Rightarrow> length (geom_coords geom) \<noteq> length prev)"

text \<open>
  Lines 71-88: the histories are extended and the step is formed, before it is clipped.
  The alignment of lines 67-69 acts on the geometry only, before the forces are read.
\<close>

definition unclipped_step ::
  "string_optimizer \<Rightarrow> geometry \<Rightarrow> (real list \<times> string_optimizer) result" where
  "unclipped_step opt geom =
     (let size_changed = string_size_changed opt geom;
          frc = geom_forces geom;
          opt' = opt\<lparr>energies := energies opt @ [geom_energy geom],
                     forces := forces opt @ [frc]\<rparr>
      in bind (np_div_scalar frc (gamma opt')) (\<lambda>sd_step.
           if cur_cycle opt' = 0 \<or> size_changed then Inr (sd_step, opt')
           else
             let cur_norm = linalg_norm frc in
             bind (py_index (forces opt') (- 2)) (\<lambda>prev_forces.
               let prev_norm = linalg_norm prev_forces in
               bind (float_div (cur_norm\<^sup>2) (prev_norm\<^sup>2)) (\<lambda>q.
                 let quot = min q 1 in
                 bind (py_index (steps opt') (- 1)) (\<lambda>prev_step.
                   bind (np_add sd_step (np_scale quot prev_step)) (\<lambda>step.
                     Inr (step, opt')))))))"

definition optimize ::
  "string_optimizer \<Rightarrow> geometry \<Rightarrow> (real list \<times> string_optimizer) result" where
  "optimize opt geom =
     bind (unclipped_step opt geom) (\<lambda>(step, opt').
       Inr (restrict_step_components (max_step opt') step, opt'))"

section \<open>Primitive\<close>

text \<open>\<open>u.dot(v)\<close> for one-dimensional arrays: the lengths must agree, there is no
  broadcasting.\<close>

definition np_dot :: "real list \<Rightarrow> real list \<Rightarrow> real result" where
  "np_dot u v =
     (if length u = length v then Inr (\<Sum>(a, b)\<leftarrow>zip u v. a * b) else Inl ValueError)"

text \<open>The cosine of the angle between two vectors of equal length, in the words of the
  specification: the dot product over the product of the norms.\<close>

definition cos_angle :: "real list \<Rightarrow> real list \<Rightarrow> real" where
  "cos_angle u v = (\<Sum>(a, b)\<leftarrow>zip u v. a * b) / (linalg_norm u * linalg_norm v)"

text \<open>
  \<open>Primitive.parallel\<close> (lines 18-21). When one of the norms is zero the vector is the
  zero vector, the dot product is zero as well, numpy's quotient \<open>0 / 0\<close> is \<open>nan\<close>, and
  the comparison of line 21 with \<open>nan\<close> is false: the function returns \<open>False\<close>.
\<close>

definition parallel :: "real list \<Rightarrow> real list \<Rightarrow> real \<Rightarrow> bool result" where
  "parallel u v thresh =
     bind (np_dot u v) (\<lambda>uv.
       if linalg_norm u * linalg_norm v = 0 then Inr False
       else
         let dot = uv / (linalg_norm u * linalg_norm v)
         in Inr (1 - \<bar>dot\<bar> < thresh))"

text \<open>The default of the keyword argument \<open>thresh\<close>.\<close>

definition thresh_default :: real where
  "thresh_default = 1 / 10 ^ 6"

text \<open>
  \<open>str.lower\<close> on element symbols. Strings are byte strings here, and the letters
  \<open>A\<close> to \<open>Z\<close> are the ones that change.
\<close>

definition lower_char :: "char \<Rightarrow> char" where
  "lower_char c =
     (case map_of (zip ''ABCDEFGHIJKLMNOPQRSTUVWXYZ'' ''abcdefghijklmnopqrstuvwxyz'') c of
        Some l \<Rightarrow> l
      | None \<Rightarrow> c)"

definition lower :: "string \<Rightarrow> string" where
  "lower s = map lower_char s"

text \<open>A row of \<open>coords3d\<close>, the difference of two rows and \<open>np.linalg.norm\<close> of a row.\<close>

type_synonym vec3 = "real \<times> real \<times> real"

fun sub3 :: "vec3 \<Rightarrow> vec3 \<Rightarrow> vec3" where
  "sub3 (x1, y1, z1) (x2, y2, z2) = (x1 - x2, y1 - y2, z1 - z2)"

fun norm3 :: "vec3 \<Rightarrow> real" where
  "norm3 (x, y, z) = sqrt (x\<^sup>2 + y\<^sup>2 + z\<^sup>2)"

text \<open>Reading a dictionary: a missing key raises \<open>KeyError\<close>.\<close>

definition dict_get :: "('k \<rightharpoonup> 'v) \<Rightarrow> 'k \<Rightarrow> 'v result" where
  "dict_get d k = (case d k of None \<Rightarrow> Inl KeyError | Some v \<Rightarrow> Inr v)"

text \<open>
  \<open>Primitive.rho\<close> (lines 34-39). The table \<open>COVALENT_RADII\<close> of \<open>pysisyphus.elem_data\<close>
  is the argument \<open>CR\<close>. The unpacking \<open>i, j = indices\<close> raises \<open>ValueError\<close> unless
  \<open>indices\<close> has two entries.
\<close>

definition rho :: "(string \<rightharpoonup> real) \<Rightarrow> string list \<Rightarrow> vec3 list \<Rightarrow> int list \<Rightarrow> real result" where
  "rho CR atoms coords3d indices =
     (case indices of
        [i, j] \<Rightarrow>
          bind (py_index coords3d i) (\<lambda>ci.
          bind (py_index coords3d j) (\<lambda>cj.
            let distance = norm3 (sub3 ci cj) in
            bind (py_index atoms i) (\<lambda>ai.
            bind (dict_get CR (lower ai)) (\<lambda>ri.
            bind (py_index atoms j) (\<lambda>aj.
            bind (dict_get CR (lower aj)) (\<lambda>rj.
              let cov_rad_sum = ri + rj in
              bind (float_div distance cov_rad_sum) (\<lambda>q.
                Inr (exp (- (q - 1))))))))))
      | _ \<Rightarrow> Inl ValueError)"

section \<open>SimpleZTS\<close>

text \<open>An image of the chain as \<open>reparametrize\<close> reads it: \<open>img.coords\<close> and \<open>img.energy\<close>.\<close>

record image =
  img_coords :: "real list"
  img_energy :: real

text \<open>\<open>a.max()\<close>: the largest entry; an empty array raises \<open>ValueError\<close>.\<close>

fun np_max :: "real list \<Rightarrow> real result" where
  "np_max [] = Inl ValueError"
| "np_max (x # xs) = Inr (fold max xs x)"

text \<open>The local function \<open>weight_function\<close> (lines 18-22).\<close>

definition weight_function :: "real list \<Rightarrow> real list result" where
  "weight_function mean_energies =
     (let abs_energies = map abs mean_energies in
      bind (np_max abs_energies) (\<lambda>m.
        bind (np_div_scalar abs_energies m) (\<lambda>weights.
          Inr (map sqrt weights))))"

text \<open>Lines 30-34: the energies of the images, their means over the segments and the
  weights of the segments.\<close>

definition mean_energies :: "real list \<Rightarrow> real list" where
  "mean_energies energy_list =
     map (\<lambda>i. (energy_list ! i + energy_list ! (i - 1)) / 2) [1..<length energy_list]"

definition segment_weights :: "image list \<Rightarrow> real list result" where
  "segment_weights imgs = weight_function (mean_energies (map img_energy imgs))"

text \<open>
  The loop of lines 36-41 over the indices \<open>is\<close>, with the list \<open>arc_segments\<close> built so
  far. The indices come from \<open>range(1, len(self.images))\<close>, so \<open>weights[i-1]\<close> and the
  images \<open>i\<close> and \<open>i-1\<close> exist.
\<close>

fun arc_loop :: "real list \<Rightarrow> image list \<Rightarrow> nat list \<Rightarrow> real list \<Rightarrow> real list result" where
  "arc_loop weights imgs [] arc_segments = Inr arc_segments"
| "arc_loop weights imgs (i # is) arc_segments =
     bind (np_sub (img_coords (imgs ! i)) (img_coords (imgs ! (i - 1)))) (\<lambda>diff.
       let coord_diff = linalg_norm diff;
           next_segment = last arc_segments + weights ! (i - 1) * coord_diff
       in arc_loop weights imgs is (arc_segments @ [next_segment]))"

text \<open>Lines 30-41: the parameter sequence before it is normalised.\<close>

definition raw_arc_segments :: "image list \<Rightarrow> real list result" where
  "raw_arc_segments imgs =
     bind (segment_weights imgs) (\<lambda>weights.
       arc_loop weights imgs [1..<length imgs] [0])"

text \<open>Lines 30-43: the parameter sequence handed to \<open>splprep\<close> in the mode
  \<open>"energy"\<close>.\<close>

definition energy_arc_segments :: "image list \<Rightarrow> real list result" where
  "energy_arc_segments imgs =
     bind (raw_arc_segments imgs) (\<lambda>arc_segments.
       bind (np_max arc_segments) (\<lambda>m.
         np_div_scalar arc_segments m))"

text \<open>
  The notions the specification describes the parameter sequence with: the mean of the
  energies at the two ends of segment \<open>i\<close> (between the images \<open>i - 1\<close> and \<open>i\<close>), the
  largest absolute mean over the segments, and the Euclidean distance of two
  coordinate vectors of equal length.
\<close>

definition segment_mean :: "image list \<Rightarrow> nat \<Rightarrow> real" where
  "segment_mean imgs i = (img_energy (imgs ! i) + img_energy (imgs ! (i - 1))) / 2"

definition max_abs_mean :: "image list \<Rightarrow> real" where
  "max_abs_mean imgs = Max ((\<lambda>i. \<bar>segment_mean imgs i\<bar>) ` {1..<length imgs})"

definition euclidean_distance :: "real list \<Rightarrow> real list \<Rightarrow> real" where
  "euclidean_distance xs ys = sqrt (\<Sum>(x, y)\<leftarrow>zip xs ys. (x - y)\<^sup>2)"

text \<open>The increment of the parameter over segment \<open>i\<close> for given weights.\<close>

definition seg :: "real list \<Rightarrow> image list \<Rightarrow> nat \<Rightarrow> real" where
  "seg w imgs i =
     w ! (i - 1) * euclidean_distance (img_coords (imgs ! i)) (img_coords (imgs ! (i - 1)))"

subsection \<open>The chain and its reparametrization\<close>

text \<open>
  The object: \<open>self.param\<close>, \<open>self.images\<close> and the cached \<open>self.coords_length\<close>, the
  number of coordinates of one image.
\<close>

record simple_zts =
  param :: string
  images :: "image list"
  coords_length :: nat

text \<open>
  \<open>SimpleZTS.__init__\<close> (lines 12-14). Line 13 stores \<open>param\<close> as it is given. The
  constructor of the base class \<open>ChainOfStates\<close> (line 14) is not among the sources and is
  the argument \<open>base_init\<close>; it receives the images, not \<open>param\<close>.
\<close>

definition SimpleZTS_init ::
  "(image list \<Rightarrow> simple_zts result) \<Rightarrow> image list \<Rightarrow> string \<Rightarrow> simple_zts result" where
  "SimpleZTS_init base_init imgs param_arg =
     bind (base_init imgs) (\<lambda>z. Inr (z\<lparr>param := param_arg\<rparr>))"

text \<open>\<open>a.reshape(-1, k)\<close> of a one-dimensional array: rows of \<open>k\<close> entries; \<open>ValueError\<close>
  when \<open>k\<close> is zero or does not divide the size.\<close>

definition np_reshape_rows :: "real list \<Rightarrow> nat \<Rightarrow> real list list result" where
  "np_reshape_rows v k =
     (if k = 0 \<or> length v mod k \<noteq> 0 then Inl ValueError
      else Inr (map (\<lambda>i. take k (drop (i * k) v)) [0..<length v div k]))"

text \<open>\<open>a.transpose()\<close> of a two-dimensional array given by its rows, with \<open>ncols\<close>
  columns.\<close>

definition np_transpose :: "'a list list \<Rightarrow> nat \<Rightarrow> 'a list list" where
  "np_transpose rows ncols = map (\<lambda>j. map (\<lambda>row. row ! j) rows) [0..<ncols]"

text \<open>\<open>np.linspace(a, b, num=n)\<close>.\<close>

definition linspace :: "real \<Rightarrow> real \<Rightarrow> nat \<Rightarrow> real list" where
  "linspace a b num =
     (if num = 1 then [a]
      else map (\<lambda>i. a + real i * ((b - a) / real (num - 1))) [0..<num])"

text \<open>
  Modelled from the spec: the property \<open>coords\<close> of \<open>ChainOfStates\<close>, read in line 24, is
  not among the sources. The specification describes it as "a flattened coordinate
  vector view concatenating all images' coordinates in order", with the cached length
  "number of scalar coordinates per image".
\<close>

definition cos_coords :: "simple_zts \<Rightarrow> real list" where
  "cos_coords z = concat (map img_coords (images z))"

text \<open>A floating point number that may be \<open>nan\<close>: \<open>None\<close> stands for \<open>nan\<close>.\<close>

type_synonym float = "real option"

text \<open>
  Lines 30-43 as the floating point code runs them: the array \<open>arc_segments\<close> that
  line 45 hands to \<open>splprep\<close>. Where \<open>energy_arc_segments\<close> has a value this is the
  value. It has none (\<open>NonFinite\<close>) in two cases, and in both the code goes on. Either
  all the mean energies are zero: line 20 divides zero by zero, every weight is \<open>nan\<close>,
  the loop of lines 36-41 runs with these weights (and raises on arrays it cannot
  subtract), its sums after the first are \<open>nan\<close>, so is their maximum, and line 43
  leaves \<open>nan\<close> in every entry. Or the sums of the loop are all zero: line 43 divides
  zero by zero in every entry. The loop raises or not whatever the weights are, so it
  is run here with the weights zero to see which.
\<close>

definition energy_parameters :: "image list \<Rightarrow> float list result" where
  "energy_parameters imgs =
     (case energy_arc_segments imgs of
        Inr arc_segments \<Rightarrow> Inr (map Some arc_segments)
      | Inl e \<Rightarrow>
          if e = NonFinite then
            bind (arc_loop (replicate (length imgs - 1) 0) imgs [1..<length imgs] [0])
              (\<lambda>_. Inr (replicate (length imgs) None))
          else Inl e)"

text \<open>
  \<open>SimpleZTS.reparametrize\<close> (lines 17-53). The functions \<open>splprep\<close> and \<open>splev\<close> of
  \<open>scipy.interpolate\<close> are arguments: \<open>splprep x u s\<close> takes the coordinate rows, the
  optional parameter values \<open>u\<close> and the smoothing factor \<open>s\<close> and returns the spline
  \<open>tck\<close> with the parameter values it used; \<open>splev mesh tck\<close> returns one row of values
  per coordinate. In a mode other than \<open>"energy"\<close> and \<open>"equal"\<close> neither branch assigns
  \<open>tck\<close>, and reading it in line 52 raises \<open>UnboundLocalError\<close>. The result of
  \<open>reparametrize\<close> is the vector that line 53 assigns to \<open>self.coords\<close>: the new
  coordinates of all images, image after image.
\<close>

type_synonym 'tck splprep_fn =
  "real list list \<Rightarrow> float list option \<Rightarrow> real \<Rightarrow> ('tck \<times> float list) result"

type_synonym 'tck splev_fn = "real list \<Rightarrow> 'tck \<Rightarrow> float list list result"

definition fit_spline :: "'tck splprep_fn \<Rightarrow> simple_zts \<Rightarrow> real list list \<Rightarrow> 'tck option result" where
  "fit_spline splprep z transp_coords =
     (if param z = ''energy'' then
        bind (energy_parameters (images z)) (\<lambda>arc_segments.
          bind (splprep transp_coords (Some arc_segments) 0) (\<lambda>(tck, u). Inr (Some tck)))
      else if param z = ''equal'' then
        bind (splprep transp_coords None 0) (\<lambda>(tck, u). Inr (Some tck))
      else Inr None)"

definition reparametrize :: "'tck splprep_fn \<Rightarrow> 'tck splev_fn \<Rightarrow> simple_zts \<Rightarrow> float list result" where
  "reparametrize splprep splev z =
     bind (np_reshape_rows (cos_coords z) (coords_length z)) (\<lambda>reshaped.
       let transp_coords = np_transpose reshaped (coords_length z) in
       bind (fit_spline splprep z transp_coords) (\<lambda>tck_bound.
         let uniform_mesh = linspace 0 1 (length (images z)) in
         case tck_bound of
           None \<Rightarrow> Inl UnboundLocalError
         | Some tck \<Rightarrow>
             bind (splev uniform_mesh tck) (\<lambda>new_points.
               if list_all (\<lambda>row. length row = length uniform_mesh) new_points
               then Inr (concat (np_transpose new_points (length uniform_mesh)))
               else Inl ValueError)))"

section \<open>Calculator\<close>

text \<open>
  How a call ends: it returns a value, an exception leaves it, or \<open>sys.exit()\<close> ends the
  process (\<open>SystemExit\<close> is not an \<open>Exception\<close> and is not caught by
  \<open>except Exception\<close>).
\<close>

datatype 'a outcome = Return 'a | Raise error | Exit

text \<open>The fields of the calculator that \<open>run\<close> reads and writes. \<open>base_cmd\<close> is set by
  the derived classes only.\<close>

record calculator =
  calc_counter :: int
  base_cmd :: "string option"

text \<open>
  What the file system, the external program and the methods of the derived class do
  in one call of \<open>run\<close>: the result of \<open>self.prepare(inp)\<close> (the working directory), of
  opening the output file, of starting the program and waiting for it (its exit
  status), of \<open>self.run_after(path)\<close>, of \<open>self.parser_funcs[calc](path)\<close>, of
  \<open>self.keep(path)\<close>, of saving the working directory in the handler (lines 106-109)
  and of \<open>self.clean(path)\<close>.
\<close>

record 'r run_env =
  prepare_result :: "string result"
  open_result :: "unit result"
  popen_wait_result :: "int result"
  run_after_result :: "unit result"
  parser_result :: "'r result"
  keep_result :: "unit result"
  backup_result :: "unit result"
  clean_result :: "unit result"

text \<open>Lines 98-100, the body of the \<open>try\<close>.\<close>

definition try_body :: "'r run_env \<Rightarrow> 'r result" where
  "try_body env =
     bind (run_after_result env) (\<lambda>_.
       bind (parser_result env) (\<lambda>results.
         bind (keep_result env) (\<lambda>_. Inr results)))"

text \<open>Lines 101-110, the handler: it reports, saves the working directory and calls
  \<open>sys.exit()\<close>.\<close>

definition except_handler :: "'r run_env \<Rightarrow> 'r outcome" where
  "except_handler env = (case backup_result env of Inl e \<Rightarrow> Raise e | Inr _ \<Rightarrow> Exit)"

text \<open>Lines 111-113, the \<open>finally\<close> block, entered with the way the \<open>try\<close> statement is
  about to end; an exception of \<open>self.clean\<close> replaces it.\<close>

definition finally_block :: "'r run_env \<Rightarrow> calculator \<Rightarrow> 'r outcome \<Rightarrow> 'r outcome \<times> calculator" where
  "finally_block env calc pending =
     (case clean_result env of
        Inl e \<Rightarrow> (Raise e, calc)
      | Inr _ \<Rightarrow> (pending, calc\<lparr>calc_counter := calc_counter calc + 1\<rparr>))"

text \<open>\<open>Calculator.run\<close> (lines 86-115).\<close>

definition run :: "'r run_env \<Rightarrow> calculator \<Rightarrow> 'r outcome \<times> calculator" where
  "run env calc =
     (case prepare_result env of
        Inl e \<Rightarrow> (Raise e, calc)
      | Inr path \<Rightarrow>
     (case base_cmd calc of
        None \<Rightarrow> (Raise AttributeError, calc)
      | Some cmd \<Rightarrow>
     (case open_result env of
        Inl e \<Rightarrow> (Raise e, calc)
      | Inr _ \<Rightarrow>
     (case popen_wait_result env of
        Inl e \<Rightarrow> (Raise e, calc)
      | Inr returncode \<Rightarrow>
     (case try_body env of
        Inr results \<Rightarrow> finally_block env calc (Return results)
      | Inl err \<Rightarrow> finally_block env calc (except_handler env))))))"

section \<open>Example values\<close>

text \<open>A two-coordinate path geometry and an optimizer as the base class leaves it,
  used to run the definitions on concrete inputs.\<close>

definition demo_geom :: geometry where
  "demo_geom = \<lparr>geom_coords = [0, 0], geom_forces = [0, 3], geom_energy = 1,
                 fully_grown = True, coord_type = ''cart''\<rparr>"

definition demo_base :: string_optimizer where
  "demo_base = \<lparr>max_step = 1/10, align = False, is_cos = True, cur_cycle = 0,
                 coords = [], energies = [], forces = [], steps = [],
                 gamma = 0, stop_in_when_full = 0, stop_in = 0, is_cart_opt = False\<rparr>"


text \<open>A table of radii for two elements, and two atoms at distance 1 and at distance 2.\<close>

definition demo_radii :: "string \<rightharpoonup> real" where
  "demo_radii = [''h'' \<mapsto> 1/4, ''c'' \<mapsto> 3/4]"

definition demo_coords3d :: "vec3 list" where
  "demo_coords3d = [(0, 0, 0), (0, 0, 1)]"

definition demo_coords3d_far :: "vec3 list" where
  "demo_coords3d_far = [(0, 0, 0), (0, 0, 2)]"

text \<open>Three images on a line, the last one high in energy.\<close>

definition demo_images :: "image list" where
  "demo_images = [\<lparr>img_coords = [0], img_energy = 1\<rparr>,
                  \<lparr>img_coords = [2], img_energy = 1\<rparr>,
                  \<lparr>img_coords = [3], img_energy = 7\<rparr>]"

text \<open>A base class constructor that accepts every list of images, and spline functions
  that always fail.\<close>

definition demo_base_init :: "image list \<Rightarrow> simple_zts result" where
  "demo_base_init imgs =
     Inr \<lparr>param = [], images = imgs, coords_length = length (img_coords (hd imgs))\<rparr>"

definition no_splprep :: "unit splprep_fn" where
  "no_splprep x u s = Inl TypeError"

definition no_splev :: "unit splev_fn" where
  "no_splev mesh tck = Inl TypeError"

text \<open>A calculator, and a call of \<open>run\<close> in which the external program ends with exit
  status 1 and the parser raises.\<close>

definition demo_calc :: calculator where
  "demo_calc = \<lparr>calc_counter = 0, base_cmd = Some ''prog''\<rparr>"

definition demo_env :: "real run_env" where
  "demo_env = \<lparr>prepare_result = Inr ''calculator_0_000_'', open_result = Inr (),
                popen_wait_result = Inr 1, run_after_result = Inr (),
                parser_result = Inl ValueError, keep_result = Inr (),
                backup_result = Inr (), clean_result = Inr ()\<rparr>"




section \<open>Properties of the StringOptimizer\<close>

lemma unclipped_step_max_step:
  "unclipped_step opt geom = Inr (step, opt') \<Longrightarrow> max_step opt' = max_step opt"
  by (auto simp: unclipped_step_def bind_def Let_def split: sum.splits if_splits)

lemma stop_in_after_cycles:
  "stop_in (after_cycles opt cs) =
     stop_in opt - int (length (filter (\<lambda>c. fully_grown (fst c)) cs))"
  by (induction opt cs rule: after_cycles.induct)
     (auto simp: check_convergence_def count_down_def)

lemma py_index_last:
  "xs \<noteq> [] \<Longrightarrow> py_index xs (- 1) = Inr (last xs)"
  by (cases xs rule: rev_cases) (auto simp: py_index_def Let_def nth_append)

lemma py_index_snoc_last_but_one:
  "xs \<noteq> [] \<Longrightarrow> py_index (xs @ [x]) (- 2) = Inr (last xs)"
  by (cases xs rule: rev_cases) (auto simp: py_index_def Let_def nth_append)

lemma py_index_last_but_one:
  "py_index xs (- 2) = (if 2 \<le> length xs then Inr (xs ! (length xs - 2)) else Inl IndexError)"
  by (auto simp: py_index_def Let_def nat_diff_distrib' intro!: arg_cong[where f="nth xs"])

lemma string_size_changed_iff:
  "string_size_changed opt geom \<longleftrightarrow>
     length (coords opt) < 2 \<or>
     length (geom_coords geom) \<noteq> length (coords opt ! (length (coords opt) - 2))"
  by (auto simp: string_size_changed_def py_index_last_but_one)

lemma sum_list_squares_nonneg: "0 \<le> (\<Sum>x\<leftarrow>xs. (x::real)\<^sup>2)"
  by (induction xs) auto

lemma linalg_norm_power2: "(linalg_norm xs)\<^sup>2 = (\<Sum>x\<leftarrow>xs. x\<^sup>2)"
  by (simp add: linalg_norm_def sum_list_squares_nonneg)

lemma linalg_norm_nonneg: "0 \<le> linalg_norm xs"
  by (simp add: linalg_norm_def sum_list_squares_nonneg)

text \<open>
  Claim C1. In the first cycle, or when the coordinate vector of the path has another
  length than the last but one entry of the coordinate history (the entry of the
  previous cycle, the last entry being the one of the current cycle; also when the
  history has no such entry), the step before clipping is \<open>forces / gamma\<close>, whatever the
  histories of forces and steps hold. Otherwise it is
  \<open>forces / gamma + ratio * previous_step\<close> with
  \<open>ratio = min ((\<parallel>forces\<parallel> / \<parallel>previous_forces\<parallel>)\<^sup>2) 1\<close>, and \<open>ratio \<le> 1\<close>. The previous
  forces and the previous step are the last entries of the histories when the cycle
  starts.
\<close>

theorem unclipped_step_formula:
  "gamma opt \<noteq> 0 \<longrightarrow>
   ((cur_cycle opt = 0 \<or> length (coords opt) < 2 \<or>
       length (geom_coords geom) \<noteq> length (coords opt ! (length (coords opt) - 2)))
      \<longrightarrow> unclipped_step opt geom =
            Inr (map (\<lambda>f. f / gamma opt) (geom_forces geom),
                 opt\<lparr>energies := energies opt @ [geom_energy geom],
                     forces := forces opt @ [geom_forces geom]\<rparr>))
   \<and> (cur_cycle opt \<noteq> 0 \<and> 2 \<le> length (coords opt) \<and>
       length (geom_coords geom) = length (coords opt ! (length (coords opt) - 2)) \<and>
       forces opt \<noteq> [] \<and> steps opt \<noteq> [] \<and>
       linalg_norm (last (forces opt)) \<noteq> 0 \<and>
       length (last (steps opt)) = length (geom_forces geom)
      \<longrightarrow> (let ratio = min ((linalg_norm (geom_forces geom) / linalg_norm (last (forces opt)))\<^sup>2) 1
           in ratio \<le> 1 \<and>
              unclipped_step opt geom =
                Inr (map2 (\<lambda>f s. f / gamma opt + ratio * s) (geom_forces geom) (last (steps opt)),
                     opt\<lparr>energies := energies opt @ [geom_energy geom],
                         forces := forces opt @ [geom_forces geom]\<rparr>)))"
proof (intro impI conjI)
  assume g: "gamma opt \<noteq> 0"
  assume "cur_cycle opt = 0 \<or> length (coords opt) < 2 \<or>
       length (geom_coords geom) \<noteq> length (coords opt ! (length (coords opt) - 2))"
  then have "cur_cycle opt = 0 \<or> string_size_changed opt geom"
    by (simp add: string_size_changed_iff)
  then show "unclipped_step opt geom =
            Inr (map (\<lambda>f. f / gamma opt) (geom_forces geom),
                 opt\<lparr>energies := energies opt @ [geom_energy geom],
                     forces := forces opt @ [geom_forces geom]\<rparr>)"
    using g by (auto simp: unclipped_step_def Let_def bind_def np_div_scalar_def)
next
  assume g: "gamma opt \<noteq> 0"
  assume h: "cur_cycle opt \<noteq> 0 \<and> 2 \<le> length (coords opt) \<and>
       length (geom_coords geom) = length (coords opt ! (length (coords opt) - 2)) \<and>
       forces opt \<noteq> [] \<and> steps opt \<noteq> [] \<and>
       linalg_norm (last (forces opt)) \<noteq> 0 \<and>
       length (last (steps opt)) = length (geom_forces geom)"
  define ratio where
    "ratio = min ((linalg_norm (geom_forces geom) / linalg_norm (last (forces opt)))\<^sup>2) 1"
  have nsc: "\<not> string_size_changed opt geom"
    using h by (simp add: string_size_changed_iff)
  have q: "float_div ((linalg_norm (geom_forces geom))\<^sup>2) ((linalg_norm (last (forces opt)))\<^sup>2)
        = Inr ((linalg_norm (geom_forces geom) / linalg_norm (last (forces opt)))\<^sup>2)"
    using h by (simp add: float_div_def power_divide)
  have add: "np_add (map (\<lambda>f. f / gamma opt) (geom_forces geom)) (np_scale ratio (last (steps opt)))
        = Inr (map2 (\<lambda>f s. f / gamma opt + ratio * s) (geom_forces geom) (last (steps opt)))"
    using h by (simp add: np_add_def np_binop_def np_scale_def zip_map1 zip_map2 split_def)
  have "unclipped_step opt geom =
               Inr (map2 (\<lambda>f s. f / gamma opt + ratio * s) (geom_forces geom) (last (steps opt)),
                    opt\<lparr>energies := energies opt @ [geom_energy geom],
                        forces := forces opt @ [geom_forces geom]\<rparr>)"
    using g h nsc q add
    by (simp add: unclipped_step_def Let_def bind_def np_div_scalar_def
        py_index_snoc_last_but_one py_index_last ratio_def)
  moreover have "ratio \<le> 1" by (simp add: ratio_def)
  ultimately show "let ratio = min ((linalg_norm (geom_forces geom) / linalg_norm (last (forces opt)))\<^sup>2) 1
           in ratio \<le> 1 \<and>
              unclipped_step opt geom =
                Inr (map2 (\<lambda>f s. f / gamma opt + ratio * s) (geom_forces geom) (last (steps opt)),
                     opt\<lparr>energies := energies opt @ [geom_energy geom],
                         forces := forces opt @ [geom_forces geom]\<rparr>)"
    unfolding ratio_def Let_def by blast
qed


theorem unclipped_step_formula_witness:
  "unclipped_step (demo_base\<lparr>gamma := 5/4, coords := [[0, 0]]\<rparr>) demo_geom
     = Inr ([0, 12/5], demo_base\<lparr>gamma := 5/4, coords := [[0, 0]], energies := [1], forces := [[0, 3]]\<rparr>)
   \<and> unclipped_step (demo_base\<lparr>gamma := 5/4, cur_cycle := 1, coords := [[0, 0, 0], [0, 0]],
                                forces := [[3, 4]], steps := [[1, 0]]\<rparr>) demo_geom
     = Inr ([0, 12/5], demo_base\<lparr>gamma := 5/4, cur_cycle := 1, coords := [[0, 0, 0], [0, 0]],
                                forces := [[3, 4], [0, 3]], steps := [[1, 0]], energies := [1]\<rparr>)
   \<and> unclipped_step (demo_base\<lparr>gamma := 5/4, cur_cycle := 1, coords := [[0, 0], [0, 0]],
                                forces := [[3, 4]], steps := [[1, 0]]\<rparr>) demo_geom
     = Inr ([9/25, 12/5], demo_base\<lparr>gamma := 5/4, cur_cycle := 1, coords := [[0, 0], [0, 0]],
                                forces := [[3, 4], [0, 3]], steps := [[1, 0]], energies := [1]\<rparr>)"
  using unclipped_step_formula [of "demo_base\<lparr>gamma := 5/4, coords := [[0, 0]]\<rparr>" demo_geom]
    unclipped_step_formula [of "demo_base\<lparr>gamma := 5/4, cur_cycle := 1, coords := [[0, 0, 0], [0, 0]],
                                forces := [[3, 4]], steps := [[1, 0]]\<rparr>" demo_geom]
    unclipped_step_formula [of "demo_base\<lparr>gamma := 5/4, cur_cycle := 1, coords := [[0, 0], [0, 0]],
                                forces := [[3, 4]], steps := [[1, 0]]\<rparr>" demo_geom]
  by (simp add: demo_base_def demo_geom_def linalg_norm_def power_divide Let_def)


text \<open>
  Claim C2. \<open>restrict_step_components\<close> keeps the length of the step, replaces every
  component whose absolute value exceeds \<open>max_step\<close> by \<open>sign(component) * max_step\<close> and
  leaves the others as they are; a step with all components within \<open>max_step\<close> comes
  back unchanged; for a non-negative \<open>max_step\<close> clipping twice is clipping once; and
  \<open>optimize\<close> returns the clipped result of the step formula.
\<close>

theorem restrict_step_components_clips:
  "length (restrict_step_components m s) = length s
   \<and> (\<forall>i < length s. restrict_step_components m s ! i
          = (if \<bar>s ! i\<bar> > m then sgn (s ! i) * m else s ! i))
   \<and> ((\<forall>x \<in> set s. \<bar>x\<bar> \<le> m) \<longrightarrow> restrict_step_components m s = s)
   \<and> (0 \<le> m \<longrightarrow> restrict_step_components m (restrict_step_components m s)
          = restrict_step_components m s)
   \<and> (\<forall>step opt'. unclipped_step opt geom = Inr (step, opt') \<longrightarrow>
          optimize opt geom = Inr (restrict_step_components (max_step opt) step, opt'))"
proof (intro conjI allI impI)
  show "length (restrict_step_components m s) = length s"
    by (simp add: restrict_step_components_def)
next
  fix i assume "i < length s"
  then show "restrict_step_components m s ! i
      = (if \<bar>s ! i\<bar> > m then sgn (s ! i) * m else s ! i)"
    by (simp add: restrict_step_components_def)
next
  assume "\<forall>x \<in> set s. \<bar>x\<bar> \<le> m"
  then show "restrict_step_components m s = s"
    by (auto simp: restrict_step_components_def intro!: map_idI)
next
  assume "0 \<le> m"
  then show "restrict_step_components m (restrict_step_components m s)
      = restrict_step_components m s"
    by (auto simp: restrict_step_components_def abs_mult abs_sgn_eq)
next
  fix step opt' assume h: "unclipped_step opt geom = Inr (step, opt')"
  from unclipped_step_max_step[OF h] h
  show "optimize opt geom = Inr (restrict_step_components (max_step opt) step, opt')"
    by (simp add: optimize_def bind_def)
qed

theorem restrict_step_components_clips_witness:
  "restrict_step_components (1/10) [2/10, - 1/20, - 3/10] = [1/10, - 1/20, - 1/10]
   \<and> list_all (\<lambda>x::real. \<bar>x\<bar> \<le> 1/10) [1/20, - 1/10]
   \<and> restrict_step_components (1/10) [1/20, - 1/10] = [1/20, - 1/10]
   \<and> (0::real) \<le> 1/10
   \<and> restrict_step_components (1/10) (restrict_step_components (1/10) [2/10, - 1/20, - 3/10])
        = restrict_step_components (1/10) [2/10, - 1/20, - 3/10]
   \<and> unclipped_step (demo_base\<lparr>gamma := 5/4\<rparr>) demo_geom
        = Inr ([0, 12/5], demo_base\<lparr>gamma := 5/4, energies := [1], forces := [[0, 3]]\<rparr>)
   \<and> optimize (demo_base\<lparr>gamma := 5/4\<rparr>) demo_geom
        = Inr ([0, 1/10], demo_base\<lparr>gamma := 5/4, energies := [1], forces := [[0, 3]]\<rparr>)"
proof -
  have u: "unclipped_step (demo_base\<lparr>gamma := 5/4\<rparr>) demo_geom
        = Inr ([0, 12/5], demo_base\<lparr>gamma := 5/4, energies := [1], forces := [[0, 3]]\<rparr>)"
    by (simp add: unclipped_step_def demo_base_def demo_geom_def Let_def bind_def
        np_div_scalar_def)
  have c: "restrict_step_components (1/10) [2/10, - 1/20, - 3/10] = [1/10, - 1/20, - 1/10]"
    by (simp add: restrict_step_components_def)
  have w: "\<forall>x \<in> set [1/20, - 1/10 :: real]. \<bar>x\<bar> \<le> 1/10"
    by simp
  note t1 = restrict_step_components_clips
      [of "1/10" "[2/10, - 1/20, - 3/10]" "demo_base\<lparr>gamma := 5/4\<rparr>" demo_geom]
  note t2 = restrict_step_components_clips
      [of "1/10" "[1/20, - 1/10]" "demo_base\<lparr>gamma := 5/4\<rparr>" demo_geom]
  have o: "optimize (demo_base\<lparr>gamma := 5/4\<rparr>) demo_geom
        = Inr (restrict_step_components (max_step (demo_base\<lparr>gamma := 5/4\<rparr>)) [0, 12/5],
               demo_base\<lparr>gamma := 5/4, energies := [1], forces := [[0, 3]]\<rparr>)"
    using t1 u by blast
  have i: "restrict_step_components (1/10) (restrict_step_components (1/10) [2/10, - 1/20, - 3/10])
        = restrict_step_components (1/10) [2/10, - 1/20, - 3/10]"
    using t1 by simp
  have k: "restrict_step_components (1/10) [1/20, - 1/10] = [1/20, - 1/10]"
    using t2 w by blast
  have o': "optimize (demo_base\<lparr>gamma := 5/4\<rparr>) demo_geom
        = Inr ([0, 1/10], demo_base\<lparr>gamma := 5/4, energies := [1], forces := [[0, 3]]\<rparr>)"
    using o by (simp add: restrict_step_components_def demo_base_def)
  show ?thesis
    using u c i k o' by simp
qed

text \<open>
  Claim C3. An optimizer constructed with the countdown \<open>stop_in_when_full = N \<ge> 0\<close> and
  run on a geometry that is fully grown in every cycle from cycle 0 on has
  \<open>full_stop\<close> true in cycle \<open>k\<close> exactly when \<open>k = N\<close>; and whenever \<open>full_stop\<close> is true
  the verdict of \<open>check_convergence\<close> is true, whatever the base class found.
\<close>

theorem full_stop_countdown:
  assumes init: "StringOptimizer_init base geom0 gam N = Inr opt"
    and N: "0 \<le> N"
    and grown: "\<forall>c \<in> set cs. fully_grown (fst c)"
    and k: "k < length cs"
  shows "(full_stop_at opt cs k \<longleftrightarrow> int k = N)
       \<and> (\<forall>converged. full_stop_at opt cs k \<longrightarrow>
            fst (check_convergence (after_cycles opt (take k cs)) (fst (cs ! k)) converged))"
proof -
  from init have s0: "stop_in opt = N + 1"
    by (auto simp: StringOptimizer_init_def split: if_splits)
  have "\<forall>c \<in> set (take k cs). fully_grown (fst c)"
    using grown by (meson in_set_takeD)
  then have "filter (\<lambda>c. fully_grown (fst c)) (take k cs) = take k cs"
    by simp
  then have sk: "stop_in (after_cycles opt (take k cs)) = N + 1 - int k"
    using k s0 by (simp add: stop_in_after_cycles)
  have gk: "fully_grown (fst (cs ! k))"
    using grown k by simp
  show ?thesis
    using sk gk
    by (auto simp: full_stop_at_def full_stop_def count_down_def check_convergence_def)
qed

theorem full_stop_countdown_witness:
  "StringOptimizer_init demo_base demo_geom (5/4) 2
     = Inr (demo_base\<lparr>gamma := 5/4, stop_in_when_full := 2, stop_in := 3, is_cart_opt := True\<rparr>)
   \<and> (0::int) \<le> 2
   \<and> list_all (\<lambda>c. fully_grown (fst c)) (replicate 4 (demo_geom, False))
   \<and> \<not> full_stop_at (demo_base\<lparr>gamma := 5/4, stop_in_when_full := 2, stop_in := 3,
                                is_cart_opt := True\<rparr>) (replicate 4 (demo_geom, False)) 1
   \<and> full_stop_at (demo_base\<lparr>gamma := 5/4, stop_in_when_full := 2, stop_in := 3,
                              is_cart_opt := True\<rparr>) (replicate 4 (demo_geom, False)) 2
   \<and> \<not> full_stop_at (demo_base\<lparr>gamma := 5/4, stop_in_when_full := 2, stop_in := 3,
                                is_cart_opt := True\<rparr>) (replicate 4 (demo_geom, False)) 3"
proof -
  let ?opt = "demo_base\<lparr>gamma := 5/4, stop_in_when_full := 2, stop_in := 3, is_cart_opt := True\<rparr>"
  let ?cs = "replicate 4 (demo_geom, False)"
  have i: "StringOptimizer_init demo_base demo_geom (5/4) 2 = Inr ?opt"
    by (simp add: StringOptimizer_init_def demo_base_def demo_geom_def)
  have g: "\<forall>c \<in> set ?cs. fully_grown (fst c)"
    by (simp add: demo_geom_def)
  have n: "(0::int) \<le> 2" by simp
  have "full_stop_at ?opt ?cs 1 \<longleftrightarrow> int 1 = 2"
    using full_stop_countdown [OF i n g, of 1] by simp
  moreover have "full_stop_at ?opt ?cs 2 \<longleftrightarrow> int 2 = 2"
    using full_stop_countdown [OF i n g, of 2] by simp
  moreover have "full_stop_at ?opt ?cs 3 \<longleftrightarrow> int 3 = 2"
    using full_stop_countdown [OF i n g, of 3] by simp
  ultimately show ?thesis
    using i g by (simp add: list_all_iff)
qed

text \<open>
  Claim C10. With the default \<open>stop_in_when_full = -1\<close> the counter starts at 0 and is
  decremented before it is compared with 0 in every fully grown cycle, so \<open>full_stop\<close>
  is false in every cycle of every run and the verdict of \<open>check_convergence\<close> is the
  verdict of the base class.
\<close>

theorem default_countdown_never_stops:
  assumes init: "StringOptimizer_init base geom0 gam (- 1) = Inr opt"
    and k: "k < length cs"
  shows "stop_in opt = 0 \<and> \<not> full_stop_at opt cs k \<and> verdict_at opt cs k = snd (cs ! k)"
proof -
  from init have s0: "stop_in opt = 0"
    by (auto simp: StringOptimizer_init_def split: if_splits)
  have "stop_in (after_cycles opt (take k cs)) \<le> 0"
    using s0 by (simp add: stop_in_after_cycles)
  then have "\<not> full_stop (after_cycles opt (take k cs)) (fst (cs ! k))"
    by (auto simp: full_stop_def count_down_def)
  then show ?thesis
    using s0 by (simp add: full_stop_at_def verdict_at_def check_convergence_def)
qed

theorem default_countdown_never_stops_witness:
  "StringOptimizer_init demo_base demo_geom (5/4) (- 1)
     = Inr (demo_base\<lparr>gamma := 5/4, stop_in_when_full := - 1, stop_in := 0, is_cart_opt := True\<rparr>)
   \<and> (1::nat) < length [(demo_geom\<lparr>fully_grown := False\<rparr>, False), (demo_geom, True), (demo_geom, False)]
   \<and> \<not> full_stop_at (demo_base\<lparr>gamma := 5/4, stop_in_when_full := - 1, stop_in := 0,
                                is_cart_opt := True\<rparr>)
         [(demo_geom\<lparr>fully_grown := False\<rparr>, False), (demo_geom, True), (demo_geom, False)] 1
   \<and> verdict_at (demo_base\<lparr>gamma := 5/4, stop_in_when_full := - 1, stop_in := 0,
                             is_cart_opt := True\<rparr>)
         [(demo_geom\<lparr>fully_grown := False\<rparr>, False), (demo_geom, True), (demo_geom, False)] 1"
proof -
  let ?opt = "demo_base\<lparr>gamma := 5/4, stop_in_when_full := - 1, stop_in := 0, is_cart_opt := True\<rparr>"
  let ?cs = "[(demo_geom\<lparr>fully_grown := False\<rparr>, False), (demo_geom, True), (demo_geom, False)]"
  have i: "StringOptimizer_init demo_base demo_geom (5/4) (- 1) = Inr ?opt"
    by (simp add: StringOptimizer_init_def demo_base_def demo_geom_def)
  have k: "1 < length ?cs" by simp
  show ?thesis
    using default_countdown_never_stops [OF i k] i by simp
qed

section \<open>Properties of the Primitive\<close>

lemma sum_list_zip_scale:
  "(\<Sum>(a, b)\<leftarrow>zip u (map (\<lambda>x. c * x) u). a * b) = (c::real) * (\<Sum>x\<leftarrow>u. x\<^sup>2)"
  by (induction u) (simp_all add: power2_eq_square distrib_left mult_ac)

lemma linalg_norm_scale:
  "linalg_norm (map (\<lambda>x. c * x) u) = \<bar>c\<bar> * linalg_norm u"
proof -
  have "(\<Sum>x\<leftarrow>map (\<lambda>x. c * x) u. x\<^sup>2) = c\<^sup>2 * (\<Sum>x\<leftarrow>u. x\<^sup>2)"
    by (induction u) (auto simp: power_mult_distrib algebra_simps)
  then show ?thesis
    by (simp add: linalg_norm_def real_sqrt_mult)
qed

lemma linalg_norm_eq_0_iff: "linalg_norm u = 0 \<longleftrightarrow> (\<forall>x \<in> set u. x = 0)"
proof -
  have "(\<Sum>x\<leftarrow>u. x\<^sup>2) = 0 \<longleftrightarrow> (\<forall>x \<in> set u. x = 0)"
    by (induction u) (auto simp: sum_list_squares_nonneg add_nonneg_eq_0_iff)
  then show ?thesis by (simp add: linalg_norm_def)
qed

lemma py_index_map: "py_index (map f xs) k = map_sum id f (py_index xs k)"
proof -
  have "k < 0 \<Longrightarrow> - int (length xs) \<le> k \<Longrightarrow> nat (int (length xs) + k) < length xs"
    by linarith
  moreover have "0 \<le> k \<Longrightarrow> k < int (length xs) \<Longrightarrow> nat k < length xs"
    by linarith
  ultimately show ?thesis
    by (auto simp: py_index_def)
qed

text \<open>
  Claim C4. For two nonzero vectors of equal length \<open>Primitive.parallel\<close> returns true
  exactly when \<open>1 - |cos(angle(u, v))| < thresh\<close>, and the default threshold is \<open>1e-6\<close>; for
  a nonzero vector \<open>u\<close> and a positive scalar \<open>c\<close> the vectors \<open>u\<close> and \<open>c * u\<close> are
  classified parallel; two orthogonal unit vectors are classified not parallel.
\<close>

theorem parallel_cosine_test:
  "(length u = length v \<and> (\<exists>x \<in> set u. x \<noteq> 0) \<and> (\<exists>x \<in> set v. x \<noteq> 0) \<longrightarrow>
      parallel u v thresh = Inr (1 - \<bar>cos_angle u v\<bar> < thresh))
   \<and> thresh_default = 1 / 10 ^ 6
   \<and> ((\<exists>x \<in> set u. x \<noteq> 0) \<and> 0 < c \<longrightarrow>
        parallel u (map (\<lambda>x. c * x) u) thresh_default = Inr True)
   \<and> (length u = length v \<and> (\<Sum>(a, b)\<leftarrow>zip u v. a * b) = 0 \<and>
       linalg_norm u = 1 \<and> linalg_norm v = 1 \<longrightarrow>
        parallel u v thresh_default = Inr False)"
proof (intro conjI impI)
  assume "length u = length v \<and> (\<exists>x \<in> set u. x \<noteq> 0) \<and> (\<exists>x \<in> set v. x \<noteq> 0)"
  then have "length u = length v" "linalg_norm u \<noteq> 0" "linalg_norm v \<noteq> 0"
    by (auto simp: linalg_norm_eq_0_iff)
  then show "parallel u v thresh = Inr (1 - \<bar>cos_angle u v\<bar> < thresh)"
    by (simp add: parallel_def np_dot_def bind_def cos_angle_def)
next
  show "thresh_default = 1 / 10 ^ 6"
    by (simp add: thresh_default_def)
next
  assume h: "(\<exists>x \<in> set u. x \<noteq> 0) \<and> 0 < c"
  then have u0: "linalg_norm u \<noteq> 0"
    by (auto simp: linalg_norm_eq_0_iff)
  have n: "linalg_norm u * linalg_norm (map (\<lambda>x. c * x) u) = c * (linalg_norm u)\<^sup>2"
    using h by (simp add: linalg_norm_scale power2_eq_square)
  have "c * (linalg_norm u)\<^sup>2 \<noteq> 0" using h u0 by simp
  then show "parallel u (map (\<lambda>x. c * x) u) thresh_default = Inr True"
    using n
    by (simp add: parallel_def np_dot_def bind_def sum_list_zip_scale linalg_norm_power2
        thresh_default_def)
next
  assume "length u = length v \<and> (\<Sum>(a, b)\<leftarrow>zip u v. a * b) = 0 \<and>
       linalg_norm u = 1 \<and> linalg_norm v = 1"
  then show "parallel u v thresh_default = Inr False"
    by (simp add: parallel_def np_dot_def bind_def thresh_default_def)
qed

theorem parallel_cosine_test_witness:
  "parallel [3, 4] [4, 3] thresh_default = Inr False
   \<and> cos_angle [3, 4] [4, 3] = 24 / 25
   \<and> parallel [3, 4] (map (\<lambda>x. 2 * x) [3, 4]) thresh_default = Inr True
   \<and> linalg_norm [1, 0] = 1 \<and> linalg_norm [0, 1] = 1
   \<and> parallel [1, 0] [0, 1] thresh_default = Inr False"
proof -
  have c: "cos_angle [3, 4] [4, 3] = 24 / 25"
    by (simp add: cos_angle_def linalg_norm_def real_sqrt_mult_self)
  have "parallel [3, 4] [4, 3] thresh_default = Inr (1 - \<bar>cos_angle [3, 4] [4, 3]\<bar> < thresh_default)"
    using parallel_cosine_test [of "[3, 4]" "[4, 3]" thresh_default] by simp
  then have p1: "parallel [3, 4] [4, 3] thresh_default = Inr False"
    by (simp add: c thresh_default_def)
  have p2: "parallel [3, 4] (map (\<lambda>x. 2 * x) [3, 4]) thresh_default = Inr True"
    using parallel_cosine_test [of "[3, 4]" "[3, 4]" thresh_default 2] by simp
  have n: "linalg_norm [1, 0] = 1" "linalg_norm [0, 1] = 1"
    by (simp_all add: linalg_norm_def)
  have p3: "parallel [1, 0] [0, 1] thresh_default = Inr False"
  proof -
    have "length [1, 0 :: real] = length [0, 1 :: real] \<and>
        (\<Sum>(a, b)\<leftarrow>zip [1, 0 :: real] [0, 1]. a * b) = 0 \<and>
        linalg_norm [1, 0] = 1 \<and> linalg_norm [0, 1] = 1"
      using n by simp
    with parallel_cosine_test [of "[1, 0]" "[0, 1]" thresh_default] show ?thesis
      by blast
  qed
  show ?thesis using c p1 p2 n p3 by simp
qed

text \<open>
  Claim C5. When the two atoms and their radii \<open>r_i\<close>, \<open>r_j\<close> are found and \<open>r_i + r_j\<close> is
  not zero, \<open>Primitive.rho\<close> is \<open>exp (- (d / (r_i + r_j) - 1))\<close> for the Euclidean distance
  \<open>d\<close> of the atoms; it is 1 when \<open>d = r_i + r_j\<close>; for a positive sum of radii a larger
  distance gives a strictly smaller value; and the result depends on the element
  symbols through their lower-case form only.
\<close>

theorem rho_formula:
  assumes ci: "py_index coords3d i = Inr ci" and cj: "py_index coords3d j = Inr cj"
    and ai: "py_index atoms i = Inr ai" and aj: "py_index atoms j = Inr aj"
    and ri: "CR (lower ai) = Some ri" and rj: "CR (lower aj) = Some rj"
    and pos: "ri + rj \<noteq> 0"
  shows "rho CR atoms coords3d [i, j] = Inr (exp (- (norm3 (sub3 ci cj) / (ri + rj) - 1)))
    \<and> (norm3 (sub3 ci cj) = ri + rj \<longrightarrow> rho CR atoms coords3d [i, j] = Inr 1)
    \<and> (\<forall>coords3d' ci' cj'.
          py_index coords3d' i = Inr ci' \<and> py_index coords3d' j = Inr cj' \<and> 0 < ri + rj \<and>
          norm3 (sub3 ci cj) < norm3 (sub3 ci' cj') \<longrightarrow>
          (\<exists>r r'. rho CR atoms coords3d [i, j] = Inr r \<and>
                  rho CR atoms coords3d' [i, j] = Inr r' \<and> r' < r))
    \<and> (\<forall>atoms'. map lower atoms' = map lower atoms \<longrightarrow>
          rho CR atoms' coords3d [i, j] = rho CR atoms coords3d [i, j])"
proof (intro conjI allI impI)
  show f: "rho CR atoms coords3d [i, j] = Inr (exp (- (norm3 (sub3 ci cj) / (ri + rj) - 1)))"
    using assms by (simp add: rho_def bind_def dict_get_def float_div_def)
  {
    assume "norm3 (sub3 ci cj) = ri + rj"
    then show "rho CR atoms coords3d [i, j] = Inr 1"
      using f pos by simp
  }
  {
    fix coords3d' ci' cj'
    assume h: "py_index coords3d' i = Inr ci' \<and> py_index coords3d' j = Inr cj' \<and> 0 < ri + rj \<and>
          norm3 (sub3 ci cj) < norm3 (sub3 ci' cj')"
    then have f': "rho CR atoms coords3d' [i, j] = Inr (exp (- (norm3 (sub3 ci' cj') / (ri + rj) - 1)))"
      using assms by (simp add: rho_def bind_def dict_get_def float_div_def)
    have "norm3 (sub3 ci cj) / (ri + rj) < norm3 (sub3 ci' cj') / (ri + rj)"
      using h by (simp add: divide_strict_right_mono)
    then have "exp (- (norm3 (sub3 ci' cj') / (ri + rj) - 1)) < exp (- (norm3 (sub3 ci cj) / (ri + rj) - 1))"
      by simp
    then show "\<exists>r r'. rho CR atoms coords3d [i, j] = Inr r \<and>
                  rho CR atoms coords3d' [i, j] = Inr r' \<and> r' < r"
      using f f' by simp
  }
  {
    fix atoms' :: "string list"
    assume m: "map lower atoms' = map lower atoms"
    have "\<And>k a. py_index atoms k = Inr a \<Longrightarrow> \<exists>a'. py_index atoms' k = Inr a' \<and> lower a' = lower a"
    proof -
      fix k a assume "py_index atoms k = Inr a"
      then have "map_sum id lower (py_index atoms' k) = Inr (lower a)"
        using m py_index_map [of lower atoms' k] py_index_map [of lower atoms k] by simp
      then show "\<exists>a'. py_index atoms' k = Inr a' \<and> lower a' = lower a"
        by (cases "py_index atoms' k") auto
    qed
    then obtain ai' aj' where "py_index atoms' i = Inr ai'" "lower ai' = lower ai"
        "py_index atoms' j = Inr aj'" "lower aj' = lower aj"
      using ai aj by blast
    then show "rho CR atoms' coords3d [i, j] = rho CR atoms coords3d [i, j]"
      using assms by (simp add: rho_def bind_def dict_get_def float_div_def)
  }
qed


theorem rho_formula_witness:
  "rho demo_radii [''H'', ''C''] demo_coords3d [0, 1] = Inr 1
   \<and> rho demo_radii [''H'', ''C''] demo_coords3d_far [0, 1] = Inr (exp (- 1))
   \<and> exp (- 1) < (1::real)
   \<and> rho demo_radii [''h'', ''c''] demo_coords3d [0, 1] = Inr 1"
proof -
  have ci: "py_index demo_coords3d 0 = Inr (0, 0, 0)"
    and cj: "py_index demo_coords3d 1 = Inr (0, 0, 1)"
    and ci': "py_index demo_coords3d_far 0 = Inr (0, 0, 0)"
    and cj': "py_index demo_coords3d_far 1 = Inr (0, 0, 2)"
    by (simp_all add: py_index_def demo_coords3d_def demo_coords3d_far_def)
  have ai: "py_index [''H'', ''C''] 0 = Inr ''H''" and aj: "py_index [''H'', ''C''] 1 = Inr ''C''"
    by (simp_all add: py_index_def)
  have ri: "demo_radii (lower ''H'') = Some (1/4)" and rj: "demo_radii (lower ''C'') = Some (3/4)"
    by (simp_all add: demo_radii_def lower_def lower_char_def)
  have s: "(1/4 :: real) + 3/4 \<noteq> 0" by simp
  note t = rho_formula [OF ci cj ai aj ri rj s]
  have d: "norm3 (sub3 (0, 0, 0) (0, 0, 1)) = 1/4 + 3/4"
    by simp
  have r1: "rho demo_radii [''H'', ''C''] demo_coords3d [0, 1] = Inr 1"
    using t d by blast
  have "rho demo_radii [''H'', ''C''] demo_coords3d_far [0, 1]
      = Inr (exp (- (norm3 (sub3 (0, 0, 0) (0, 0, 2)) / (1/4 + 3/4) - 1)))"
    using rho_formula [OF ci' cj' ai aj ri rj s] by blast
  then have r2: "rho demo_radii [''H'', ''C''] demo_coords3d_far [0, 1] = Inr (exp (- 1))"
    by simp
  have "map lower [''h'', ''c''] = map lower [''H'', ''C'']"
    by (simp add: lower_def lower_char_def)
  then have r3: "rho demo_radii [''h'', ''c''] demo_coords3d [0, 1] = Inr 1"
    using t r1 by metis
  have "py_index demo_coords3d_far 0 = Inr (0, 0, 0) \<and>
      py_index demo_coords3d_far 1 = Inr (0, 0, 2) \<and> (0::real) < 1/4 + 3/4 \<and>
      norm3 (sub3 (0, 0, 0) (0, 0, 1)) < norm3 (sub3 (0, 0, 0) (0, 0, 2))"
    using ci' cj' by simp
  with t have "\<exists>r r'. rho demo_radii [''H'', ''C''] demo_coords3d [0, 1] = Inr r \<and>
      rho demo_radii [''H'', ''C''] demo_coords3d_far [0, 1] = Inr r' \<and> r' < r"
    by blast
  then have r4: "exp (- 1) < (1::real)"
    using r1 r2 by simp
  show ?thesis using r1 r2 r3 r4 by simp
qed

section \<open>Properties of SimpleZTS\<close>

lemma np_max_eq: "xs \<noteq> [] \<Longrightarrow> np_max xs = Inr (Max (set xs))"
proof (cases xs)
  case Nil
  then show "xs \<noteq> [] \<Longrightarrow> np_max xs = Inr (Max (set xs))" by simp
next
  case (Cons a list)
  then show "np_max xs = Inr (Max (set xs))"
    using Max.set_eq_fold [of a list] by simp
qed

lemma np_sub_same_length:
  "length xs = length ys \<Longrightarrow> np_sub xs ys = Inr (map2 (-) xs ys)"
  by (simp add: np_sub_def np_binop_def)

lemma linalg_norm_diff:
  "linalg_norm (map2 (-) xs ys) = euclidean_distance xs ys"
  by (simp add: linalg_norm_def euclidean_distance_def comp_def split_def)

lemma arc_loop_result:
  assumes "\<forall>i \<in> set is. length (img_coords (imgs ! i)) = length (img_coords (imgs ! (i - 1)))"
    and "acc \<noteq> []"
  shows "\<exists>r. arc_loop w imgs is acc = Inr (acc @ r) \<and> length r = length is \<and>
     (\<forall>k < length is. (acc @ r) ! (length acc + k) = (acc @ r) ! (length acc + k - 1) + seg w imgs (is ! k))"
  using assms
proof (induction "is" arbitrary: acc)
  case Nil
  then show ?case by simp
next
  case (Cons i "is")
  let ?nx = "last acc + seg w imgs i"
  have sub: "np_sub (img_coords (imgs ! i)) (img_coords (imgs ! (i - 1)))
      = Inr (map2 (-) (img_coords (imgs ! i)) (img_coords (imgs ! (i - 1))))"
    using Cons.prems by (simp add: np_sub_same_length)
  have step: "arc_loop w imgs (i # is) acc = arc_loop w imgs is (acc @ [?nx])"
    using sub by (simp add: bind_def linalg_norm_diff seg_def Let_def)
  from Cons.IH [of "acc @ [?nx]"] Cons.prems
  obtain r where r: "arc_loop w imgs is (acc @ [?nx]) = Inr ((acc @ [?nx]) @ r)"
      "length r = length is"
      "\<forall>k < length is. ((acc @ [?nx]) @ r) ! (length (acc @ [?nx]) + k)
          = ((acc @ [?nx]) @ r) ! (length (acc @ [?nx]) + k - 1) + seg w imgs (is ! k)"
    by auto
  have "\<forall>k < length (i # is). (acc @ ?nx # r) ! (length acc + k)
      = (acc @ ?nx # r) ! (length acc + k - 1) + seg w imgs ((i # is) ! k)"
  proof (intro allI impI)
    fix k assume k: "k < length (i # is)"
    show "(acc @ ?nx # r) ! (length acc + k)
      = (acc @ ?nx # r) ! (length acc + k - 1) + seg w imgs ((i # is) ! k)"
    proof (cases k)
      case 0
      then show ?thesis
        using Cons.prems(2) by (simp add: nth_append last_conv_nth)
    next
      case (Suc k')
      then have "k' < length is" using k by simp
      with r(3) have "((acc @ [?nx]) @ r) ! (length (acc @ [?nx]) + k')
          = ((acc @ [?nx]) @ r) ! (length (acc @ [?nx]) + k' - 1) + seg w imgs (is ! k')"
        by blast
      then show ?thesis using Suc by simp
    qed
  qed
  then show ?case
    using step r(1,2) by (intro exI[of _ "?nx # r"]) simp
qed


lemma sum_list_square_diff_nonneg: "0 \<le> (\<Sum>(x, y)\<leftarrow>zip xs ys. ((x::real) - y)\<^sup>2)"
  by (rule sum_list_nonneg) auto

lemma euclidean_distance_nonneg: "0 \<le> euclidean_distance xs ys"
  by (simp add: euclidean_distance_def sum_list_square_diff_nonneg)

lemma euclidean_distance_pos:
  assumes "length xs = length ys" "xs \<noteq> ys"
  shows "0 < euclidean_distance xs ys"
proof -
  have "(\<Sum>(x, y)\<leftarrow>zip xs ys. (x - y)\<^sup>2) = 0 \<Longrightarrow> xs = ys"
    using assms(1)
  proof (induction xs ys rule: list_induct2)
    case Nil
    then show ?case by simp
  next
    case (Cons x xs y ys)
    have "0 \<le> (\<Sum>(x, y)\<leftarrow>zip xs ys. (x - y)\<^sup>2)"
      by (rule sum_list_square_diff_nonneg)
    with Cons.prems have "(x - y)\<^sup>2 = 0 \<and> (\<Sum>(x, y)\<leftarrow>zip xs ys. (x - y)\<^sup>2) = 0"
      by (simp add: add_nonneg_eq_0_iff)
    with Cons.IH show ?case by simp
  qed
  then have "(\<Sum>(x, y)\<leftarrow>zip xs ys. (x - y)\<^sup>2) \<noteq> 0"
    using assms(2) by blast
  moreover have "0 \<le> (\<Sum>(x, y)\<leftarrow>zip xs ys. (x - y)\<^sup>2)"
    by (rule sum_list_square_diff_nonneg)
  ultimately show ?thesis
    by (simp add: euclidean_distance_def)
qed

lemma mean_energies_length: "length (mean_energies es) = length es - 1"
  by (simp add: mean_energies_def)

lemma mean_energies_nth:
  "1 \<le> i \<Longrightarrow> i < length es \<Longrightarrow> mean_energies es ! (i - 1) = (es ! i + es ! (i - 1)) / 2"
  by (simp add: mean_energies_def)

lemma weight_function_result:
  assumes "ms \<noteq> []" "Max (set (map abs ms)) \<noteq> 0"
  shows "weight_function ms = Inr (map (\<lambda>m. sqrt (\<bar>m\<bar> / Max (set (map abs ms)))) ms)"
  using assms
  by (simp add: weight_function_def Let_def bind_def np_max_eq np_div_scalar_def comp_def)

lemma sorted_Max_last:
  assumes "sorted xs" "xs \<noteq> []"
  shows "Max (set xs) = last (xs :: real list)"
proof (rule Max_eqI)
  show "finite (set xs)" by simp
  show "last xs \<in> set xs" using assms(2) by simp
  fix y assume "y \<in> set xs"
  then obtain i where "i < length xs" "xs ! i = y"
    by (auto simp: in_set_conv_nth)
  moreover from this have "xs ! i \<le> xs ! (length xs - 1)"
    using assms by (intro sorted_nth_mono) auto
  ultimately show "y \<le> last xs"
    using assms by (simp add: last_conv_nth)
qed


lemma segment_weights_result:
  assumes n: "2 \<le> length imgs" and M: "max_abs_mean imgs \<noteq> 0"
  shows "segment_weights imgs
     = Inr (map (\<lambda>i. sqrt (\<bar>segment_mean imgs i\<bar> / max_abs_mean imgs)) [1..<length imgs])"
proof -
  let ?es = "map img_energy imgs"
  have ms: "mean_energies ?es = map (segment_mean imgs) [1..<length imgs]"
    by (auto simp: mean_energies_def segment_mean_def)
  have ne: "mean_energies ?es \<noteq> []"
    using n by (auto simp: ms)
  have mx: "Max (set (map abs (mean_energies ?es))) = max_abs_mean imgs"
    by (simp add: ms max_abs_mean_def image_image)
  from M have M': "Max (set (map abs (mean_energies ?es))) \<noteq> 0"
    unfolding mx .
  have "weight_function (mean_energies ?es)
      = Inr (map (\<lambda>m. sqrt (\<bar>m\<bar> / Max (set (map abs (mean_energies ?es))))) (mean_energies ?es))"
    by (rule weight_function_result [OF ne M'])
  then have "weight_function (mean_energies ?es)
      = Inr (map (\<lambda>m. sqrt (\<bar>m\<bar> / max_abs_mean imgs)) (mean_energies ?es))"
    unfolding mx .
  then show ?thesis
    by (simp add: segment_weights_def ms comp_def)
qed

lemma max_abs_mean_nonneg:
  assumes "2 \<le> length imgs"
  shows "0 \<le> max_abs_mean imgs"
proof -
  have "\<bar>segment_mean imgs 1\<bar> \<in> (\<lambda>i. \<bar>segment_mean imgs i\<bar>) ` {1..<length imgs}"
    using assms by auto
  then have "\<bar>segment_mean imgs 1\<bar> \<le> max_abs_mean imgs"
    unfolding max_abs_mean_def by (intro Max_ge) auto
  then show ?thesis by linarith
qed

lemma max_abs_mean_pos:
  assumes "1 \<le> i" "i < length imgs" "segment_mean imgs i \<noteq> 0"
  shows "0 < max_abs_mean imgs"
proof -
  have "\<bar>segment_mean imgs i\<bar> \<in> (\<lambda>i. \<bar>segment_mean imgs i\<bar>) ` {1..<length imgs}"
    using assms by auto
  then have "\<bar>segment_mean imgs i\<bar> \<le> max_abs_mean imgs"
    unfolding max_abs_mean_def by (intro Max_ge) auto
  then show ?thesis using assms(3) by linarith
qed

lemma raw_arc_segments_result:
  assumes n: "2 \<le> length imgs"
    and len: "\<forall>i. 1 \<le> i \<and> i < length imgs \<longrightarrow>
        length (img_coords (imgs ! i)) = length (img_coords (imgs ! (i - 1)))"
    and w: "segment_weights imgs = Inr weights"
  shows "\<exists>raw. raw_arc_segments imgs = Inr raw \<and> length raw = length imgs \<and> raw ! 0 = 0 \<and>
     (\<forall>i. 1 \<le> i \<and> i < length imgs \<longrightarrow>
        raw ! i = raw ! (i - 1) + weights ! (i - 1) *
          euclidean_distance (img_coords (imgs ! i)) (img_coords (imgs ! (i - 1))))"
proof -
  have "\<forall>i \<in> set [1..<length imgs].
      length (img_coords (imgs ! i)) = length (img_coords (imgs ! (i - 1)))"
    using len by simp
  from arc_loop_result [OF this, of "[0]" weights]
  obtain r where r: "arc_loop weights imgs [1..<length imgs] [0] = Inr ([0] @ r)"
    "length r = length [1..<length imgs]"
    "\<forall>k < length [1..<length imgs]. ([0] @ r) ! (length [0::real] + k)
        = ([0] @ r) ! (length [0::real] + k - 1) + seg weights imgs ([1..<length imgs] ! k)"
    by auto
  have "\<forall>i. 1 \<le> i \<and> i < length imgs \<longrightarrow>
        (0 # r) ! i = (0 # r) ! (i - 1) + weights ! (i - 1) *
          euclidean_distance (img_coords (imgs ! i)) (img_coords (imgs ! (i - 1)))"
  proof (intro allI impI)
    fix i assume i: "1 \<le> i \<and> i < length imgs"
    then have "i - 1 < length [1..<length imgs]" by auto
    with r(3) have "([0] @ r) ! (length [0::real] + (i - 1))
        = ([0] @ r) ! (length [0::real] + (i - 1) - 1) + seg weights imgs ([1..<length imgs] ! (i - 1))"
      by blast
    moreover have "[1..<length imgs] ! (i - 1) = i" using i by simp
    ultimately show "(0 # r) ! i = (0 # r) ! (i - 1) + weights ! (i - 1) *
          euclidean_distance (img_coords (imgs ! i)) (img_coords (imgs ! (i - 1)))"
      using i by (simp add: seg_def)
  qed
  then show ?thesis
    using r(1,2) n w by (intro exI[of _ "0 # r"]) (simp add: raw_arc_segments_def bind_def)
qed


lemma normalise_sorted:
  assumes raw: "length raw = n" "2 \<le> n" "raw ! 0 = (0::real)"
    and step: "\<forall>i. 1 \<le> i \<and> i < n \<longrightarrow> raw ! i = raw ! (i - 1) + d i"
    and nonneg: "\<forall>i. 1 \<le> i \<and> i < n \<longrightarrow> 0 \<le> d i"
    and pos: "\<exists>i. 1 \<le> i \<and> i < n \<and> 0 < d i"
  shows "sorted raw" and "0 < last raw"
    and "bind (np_max raw) (\<lambda>m. np_div_scalar raw m) = Inr (map (\<lambda>x. x / last raw) raw)"
    and "sorted (map (\<lambda>x. x / last raw) raw)"
    and "map (\<lambda>x. x / last raw) raw ! 0 = 0"
    and "last (map (\<lambda>x. x / last raw) raw) = 1"
    and "\<forall>x \<in> set (map (\<lambda>x. x / last raw) raw). 0 \<le> x \<and> x \<le> 1"
    and "(\<forall>i. 1 \<le> i \<and> i < n \<longrightarrow> 0 < d i) \<longrightarrow> sorted_wrt (<) (map (\<lambda>x. x / last raw) raw)"
proof -
  have ne: "raw \<noteq> []" using raw by auto
  have suc: "\<And>i. Suc i < n \<Longrightarrow> raw ! Suc i = raw ! i + d (Suc i)"
    using step by (metis Suc_le_mono diff_Suc_1 le0 One_nat_def)
  show s: "sorted raw"
    unfolding sorted_iff_nth_Suc
  proof (intro allI impI)
    fix i assume "Suc i < length raw"
    then have "Suc i < n" using raw by simp
    then show "raw ! i \<le> raw ! Suc i"
      using suc [of i] nonneg by (simp add: Suc_le_eq)
  qed
  obtain i where i: "1 \<le> i" "i < n" "0 < d i" using pos by blast
  have "raw ! 0 \<le> raw ! (i - 1)"
    using s i raw by (intro sorted_nth_mono) auto
  then have "0 < raw ! i"
    using step i raw(3) by (metis add_nonneg_pos)
  moreover have "raw ! i \<le> raw ! (length raw - 1)"
    using s i raw by (intro sorted_nth_mono) auto
  ultimately show lp: "0 < last raw"
    using ne by (simp add: last_conv_nth)
  have mx: "np_max raw = Inr (last raw)"
    using np_max_eq [OF ne] sorted_Max_last [OF s ne] by simp
  show "bind (np_max raw) (\<lambda>m. np_div_scalar raw m) = Inr (map (\<lambda>x. x / last raw) raw)"
    using lp by (simp add: mx bind_def np_div_scalar_def)
  show "sorted (map (\<lambda>x. x / last raw) raw)"
    using s lp by (simp add: sorted_map sorted_wrt_iff_nth_less sorted_iff_nth_mono
        divide_right_mono less_imp_le)
  show "map (\<lambda>x. x / last raw) raw ! 0 = 0"
    using ne raw(3) by (simp add: nth_map)
  show "last (map (\<lambda>x. x / last raw) raw) = 1"
    using ne lp by (simp add: last_map)
  show "\<forall>x \<in> set (map (\<lambda>x. x / last raw) raw). 0 \<le> x \<and> x \<le> 1"
  proof
    fix x assume "x \<in> set (map (\<lambda>x. x / last raw) raw)"
    then obtain k where k: "k < length raw" "x = raw ! k / last raw"
      by (auto simp: in_set_conv_nth)
    have "raw ! 0 \<le> raw ! k" "raw ! k \<le> raw ! (length raw - 1)"
      using s k by (auto intro!: sorted_nth_mono)
    then show "0 \<le> x \<and> x \<le> 1"
      using k lp raw(3) ne by (simp add: last_conv_nth)
  qed
  show "(\<forall>i. 1 \<le> i \<and> i < n \<longrightarrow> 0 < d i) \<longrightarrow> sorted_wrt (<) (map (\<lambda>x. x / last raw) raw)"
  proof
    assume all: "\<forall>i. 1 \<le> i \<and> i < n \<longrightarrow> 0 < d i"
    have "sorted_wrt (<) raw"
    proof (subst sorted_wrt_iff_nth_Suc_transp)
      show "transp ((<) :: real \<Rightarrow> real \<Rightarrow> bool)" by (rule transp_on_less)
      show "\<forall>i. Suc i < length raw \<longrightarrow> raw ! i < raw ! Suc i"
      proof (intro allI impI)
        fix i assume "Suc i < length raw"
        then have "Suc i < n" using raw by simp
        then show "raw ! i < raw ! Suc i"
          using suc [of i] all by (simp add: Suc_le_eq)
      qed
    qed
    then show "sorted_wrt (<) (map (\<lambda>x. x / last raw) raw)"
      using lp by (simp add: sorted_wrt_map divide_strict_right_mono sorted_wrt_iff_nth_less)
  qed
qed


text \<open>
  Claim C6. For a chain of at least two images with coordinate vectors of one length,
  in which some segment has a nonzero mean energy and distinct end images: the weight
  of segment \<open>i\<close> is \<open>sqrt (|mean_i| / max_k |mean_k|)\<close>; the parameter sequence before
  normalisation starts at 0 and grows over segment \<open>i\<close> by the weight times the
  Euclidean distance of the two images; the sequence handed to the spline fit is that
  sequence divided by its last entry, it starts at 0, ends at 1, is increasing and lies
  in \<open>[0, 1]\<close>; it is strictly increasing when every segment has a nonzero mean energy
  and distinct end images.
\<close>

theorem energy_arc_segments_sequence:
  assumes n: "2 \<le> length imgs"
    and len: "\<forall>i. 1 \<le> i \<and> i < length imgs \<longrightarrow>
        length (img_coords (imgs ! i)) = length (img_coords (imgs ! (i - 1)))"
    and nz: "\<exists>i. 1 \<le> i \<and> i < length imgs \<and> segment_mean imgs i \<noteq> 0 \<and>
        img_coords (imgs ! i) \<noteq> img_coords (imgs ! (i - 1))"
  shows "\<exists>weights raw u.
      segment_weights imgs = Inr weights \<and> length weights = length imgs - 1 \<and>
      (\<forall>i. 1 \<le> i \<and> i < length imgs \<longrightarrow>
         weights ! (i - 1) = sqrt (\<bar>segment_mean imgs i\<bar> / max_abs_mean imgs)) \<and>
      raw_arc_segments imgs = Inr raw \<and> length raw = length imgs \<and> raw ! 0 = 0 \<and>
      (\<forall>i. 1 \<le> i \<and> i < length imgs \<longrightarrow>
         raw ! i = raw ! (i - 1) + weights ! (i - 1) *
           euclidean_distance (img_coords (imgs ! i)) (img_coords (imgs ! (i - 1)))) \<and>
      energy_arc_segments imgs = Inr u \<and> u = map (\<lambda>x. x / last raw) raw \<and>
      u ! 0 = 0 \<and> last u = 1 \<and> sorted u \<and> (\<forall>x \<in> set u. 0 \<le> x \<and> x \<le> 1) \<and>
      ((\<forall>i. 1 \<le> i \<and> i < length imgs \<longrightarrow> segment_mean imgs i \<noteq> 0 \<and>
            img_coords (imgs ! i) \<noteq> img_coords (imgs ! (i - 1)))
         \<longrightarrow> sorted_wrt (<) u)"
proof -
  let ?w = "map (\<lambda>i. sqrt (\<bar>segment_mean imgs i\<bar> / max_abs_mean imgs)) [1..<length imgs]"
  let ?d = "\<lambda>i. ?w ! (i - 1) *
      euclidean_distance (img_coords (imgs ! i)) (img_coords (imgs ! (i - 1)))"
  obtain j where j: "1 \<le> j" "j < length imgs" "segment_mean imgs j \<noteq> 0"
      "img_coords (imgs ! j) \<noteq> img_coords (imgs ! (j - 1))"
    using nz by blast
  have M: "0 < max_abs_mean imgs"
    using max_abs_mean_pos [OF j(1,2,3)] .
  have w: "segment_weights imgs = Inr ?w"
    using segment_weights_result [OF n] M by simp
  have wn: "\<And>i. 1 \<le> i \<Longrightarrow> i < length imgs \<Longrightarrow>
      ?w ! (i - 1) = sqrt (\<bar>segment_mean imgs i\<bar> / max_abs_mean imgs)"
    by (auto simp: nth_map)
  have wpos: "\<And>i. 1 \<le> i \<Longrightarrow> i < length imgs \<Longrightarrow> segment_mean imgs i \<noteq> 0 \<Longrightarrow> 0 < ?w ! (i - 1)"
    using M by (simp add: wn)
  have wnonneg: "\<And>i. 1 \<le> i \<Longrightarrow> i < length imgs \<Longrightarrow> 0 \<le> ?w ! (i - 1)"
    using M by (simp add: wn)
  from raw_arc_segments_result [OF n len w]
  obtain raw where raw: "raw_arc_segments imgs = Inr raw" "length raw = length imgs" "raw ! 0 = 0"
      "\<forall>i. 1 \<le> i \<and> i < length imgs \<longrightarrow> raw ! i = raw ! (i - 1) + ?d i"
    by blast
  have dnonneg: "\<forall>i. 1 \<le> i \<and> i < length imgs \<longrightarrow> 0 \<le> ?d i"
    using wnonneg euclidean_distance_nonneg by (simp del: nth_map)
  have dpos: "\<And>i. 1 \<le> i \<Longrightarrow> i < length imgs \<Longrightarrow> segment_mean imgs i \<noteq> 0 \<Longrightarrow>
      img_coords (imgs ! i) \<noteq> img_coords (imgs ! (i - 1)) \<Longrightarrow> 0 < ?d i"
  proof -
    fix i assume i: "1 \<le> i" "i < length imgs" "segment_mean imgs i \<noteq> 0"
      "img_coords (imgs ! i) \<noteq> img_coords (imgs ! (i - 1))"
    have "length (img_coords (imgs ! i)) = length (img_coords (imgs ! (i - 1)))"
      using len i by blast
    from euclidean_distance_pos [OF this i(4)] wpos [OF i(1,2,3)]
    show "0 < ?d i" by (rule mult_pos_pos [rotated])
  qed
  have dex: "\<exists>i. 1 \<le> i \<and> i < length imgs \<and> 0 < ?d i"
    using dpos [OF j] j by blast
  note N = normalise_sorted [OF raw(2) n raw(3) raw(4) dnonneg dex]
  have e: "energy_arc_segments imgs = Inr (map (\<lambda>x. x / last raw) raw)"
    using N(3) by (simp add: energy_arc_segments_def raw(1) bind_def)
  have strict: "(\<forall>i. 1 \<le> i \<and> i < length imgs \<longrightarrow> segment_mean imgs i \<noteq> 0 \<and>
            img_coords (imgs ! i) \<noteq> img_coords (imgs ! (i - 1)))
         \<longrightarrow> sorted_wrt (<) (map (\<lambda>x. x / last raw) raw)"
  proof
    assume "\<forall>i. 1 \<le> i \<and> i < length imgs \<longrightarrow> segment_mean imgs i \<noteq> 0 \<and>
            img_coords (imgs ! i) \<noteq> img_coords (imgs ! (i - 1))"
    then have "\<forall>i. 1 \<le> i \<and> i < length imgs \<longrightarrow> 0 < ?d i"
      using dpos by blast
    with N(8) show "sorted_wrt (<) (map (\<lambda>x. x / last raw) raw)" by blast
  qed
  have wl: "length ?w = length imgs - 1" by simp
  have wn': "\<forall>i. 1 \<le> i \<and> i < length imgs \<longrightarrow>
         ?w ! (i - 1) = sqrt (\<bar>segment_mean imgs i\<bar> / max_abs_mean imgs)"
    using wn by blast
  show ?thesis
    using w wl wn' raw e N(4,5,6,7) strict by blast
qed


lemma sqrt_quarter: "sqrt (1 / 4) = 1 / 2"
  by (rule real_sqrt_unique) (simp_all add: power2_eq_square)

theorem energy_arc_segments_sequence_witness:
  "segment_weights demo_images = Inr [1/2, 1]
   \<and> raw_arc_segments demo_images = Inr [0, 1, 2]
   \<and> energy_arc_segments demo_images = Inr [0, 1/2, 1]
   \<and> (\<exists>u. energy_arc_segments demo_images = Inr u \<and> u ! 0 = 0 \<and> last u = 1 \<and>
          sorted_wrt (<) u)"
proof -
  have n: "2 \<le> length demo_images"
    by (simp add: demo_images_def)
  have len: "\<forall>i. 1 \<le> i \<and> i < length demo_images \<longrightarrow>
        length (img_coords (demo_images ! i)) = length (img_coords (demo_images ! (i - 1)))"
    by (simp add: demo_images_def nth_Cons split: nat.splits)
  have all: "\<forall>i. 1 \<le> i \<and> i < length demo_images \<longrightarrow> segment_mean demo_images i \<noteq> 0 \<and>
        img_coords (demo_images ! i) \<noteq> img_coords (demo_images ! (i - 1))"
    by (simp add: demo_images_def segment_mean_def nth_Cons split: nat.splits)
  then have nz: "\<exists>i. 1 \<le> i \<and> i < length demo_images \<and> segment_mean demo_images i \<noteq> 0 \<and>
        img_coords (demo_images ! i) \<noteq> img_coords (demo_images ! (i - 1))"
    using n by (intro exI [of _ 1]) auto
  from energy_arc_segments_sequence [OF n len nz] all
  have ex: "\<exists>u. energy_arc_segments demo_images = Inr u \<and> u ! 0 = 0 \<and> last u = 1 \<and>
          sorted_wrt (<) u"
    by blast
  have w: "segment_weights demo_images = Inr [1/2, 1]"
    by (simp add: segment_weights_def weight_function_def mean_energies_def demo_images_def
        bind_def np_div_scalar_def upt_conv_Cons sqrt_quarter)
  have r: "raw_arc_segments demo_images = Inr [0, 1, 2]"
    by (simp add: raw_arc_segments_def w bind_def)
       (simp add: demo_images_def upt_conv_Cons np_sub_def np_binop_def bind_def linalg_norm_def)
  have e: "energy_arc_segments demo_images = Inr [0, 1/2, 1]"
    by (simp add: energy_arc_segments_def r bind_def np_div_scalar_def)
  show ?thesis using w r e ex by blast
qed





text \<open>
  Claim C8, as it is stated, fails: the constructor accepts the unknown mode
  \<open>"linear"\<close> and returns the object; the error comes in \<open>reparametrize\<close>, and it is the
  \<open>UnboundLocalError\<close> of the unassigned name \<open>tck\<close>.
\<close>

theorem unknown_mode_accepted_at_setup:
  "SimpleZTS_init demo_base_init demo_images ''linear''
     = Inr \<lparr>param = ''linear'', images = demo_images, coords_length = 1\<rparr>
   \<and> reparametrize no_splprep no_splev
        \<lparr>param = ''linear'', images = demo_images, coords_length = 1\<rparr>
     = Inl UnboundLocalError"
  by (simp add: SimpleZTS_init_def demo_base_init_def demo_images_def bind_def
      reparametrize_def fit_spline_def cos_coords_def np_reshape_rows_def Let_def)

text \<open>
  Claim C8, amended. \<open>SimpleZTS.__init__\<close> does not examine the mode: it stores it and
  succeeds or fails as the constructor of the base class does. With a mode other than
  \<open>"energy"\<close> and \<open>"equal"\<close> the first call of \<open>reparametrize\<close> fails, with the
  \<open>ValueError\<close> of the reshape if that fails and with \<open>UnboundLocalError\<close> otherwise,
  whatever the spline functions do.
\<close>

theorem unknown_mode_fails_in_reparametrize:
  "SimpleZTS_init base_init imgs p = bind (base_init imgs) (\<lambda>z. Inr (z\<lparr>param := p\<rparr>))
   \<and> (param z \<noteq> ''energy'' \<and> param z \<noteq> ''equal'' \<longrightarrow>
        reparametrize splprep splev z =
          (case np_reshape_rows (cos_coords z) (coords_length z) of
             Inl e \<Rightarrow> Inl e
           | Inr reshaped \<Rightarrow> Inl UnboundLocalError))"
  by (simp add: SimpleZTS_init_def reparametrize_def fit_spline_def bind_def Let_def
      split: sum.splits)

theorem unknown_mode_fails_in_reparametrize_witness:
  "param \<lparr>param = ''linear'', images = demo_images, coords_length = 1\<rparr> \<noteq> ''energy''
   \<and> param \<lparr>param = ''linear'', images = demo_images, coords_length = 1\<rparr> \<noteq> ''equal''
   \<and> SimpleZTS_init demo_base_init demo_images ''linear''
     = Inr \<lparr>param = ''linear'', images = demo_images, coords_length = 1\<rparr>
   \<and> reparametrize no_splprep no_splev
        \<lparr>param = ''linear'', images = demo_images, coords_length = 1\<rparr>
     = Inl UnboundLocalError
   \<and> reparametrize no_splprep no_splev
        \<lparr>param = ''linear'', images = demo_images, coords_length = 2\<rparr>
     = Inl ValueError"
  using unknown_mode_fails_in_reparametrize
      [of demo_base_init demo_images "''linear''"
          "\<lparr>param = ''linear'', images = demo_images, coords_length = 1\<rparr>" no_splprep no_splev]
    unknown_mode_fails_in_reparametrize
      [of demo_base_init demo_images "''linear''"
          "\<lparr>param = ''linear'', images = demo_images, coords_length = 2\<rparr>" no_splprep no_splev]
  by (simp add: demo_base_init_def demo_images_def bind_def cos_coords_def np_reshape_rows_def)


section \<open>Properties of the Calculator\<close>

text \<open>
  Claim C9, as it is stated, fails: when the external program ends with exit status 1
  and the parser raises, \<open>run\<close> ends the process with \<open>sys.exit()\<close>, and no exception
  reaches the caller; when the parser finds a value all the same, \<open>run\<close> returns it.
\<close>

theorem run_failure_ends_process:
  "run demo_env demo_calc = (Exit, \<lparr>calc_counter = 1, base_cmd = Some ''prog''\<rparr>)
   \<and> run (demo_env\<lparr>parser_result := Inr 0\<rparr>) demo_calc
       = (Return 0, \<lparr>calc_counter = 1, base_cmd = Some ''prog''\<rparr>)"
  by (simp add: run_def demo_env_def demo_calc_def try_body_def bind_def except_handler_def
      finally_block_def)

text \<open>
  Claim C9, amended. When the working directory is prepared, the program was started
  and waited for, and \<open>run_after\<close>, the parser or \<open>keep\<close> raise an exception, then
  (the working directory being saved and removed without error) \<open>run\<close> ends the
  process with \<open>sys.exit()\<close> and has incremented \<open>calc_counter\<close>. The exit status of the
  program has no influence on \<open>run\<close>. The only state \<open>run\<close> changes is \<open>calc_counter\<close>.
\<close>

theorem run_exits_on_post_processing_failure:
  "(prepare_result env = Inr path \<and> base_cmd calc = Some cmd \<and> open_result env = Inr () \<and>
    popen_wait_result env = Inr returncode \<and> try_body env = Inl err \<and>
    backup_result env = Inr () \<and> clean_result env = Inr ()
      \<longrightarrow> run env calc = (Exit, calc\<lparr>calc_counter := calc_counter calc + 1\<rparr>))
   \<and> (popen_wait_result env = Inr returncode \<longrightarrow>
        run (env\<lparr>popen_wait_result := Inr returncode'\<rparr>) calc = run env calc)
   \<and> (\<forall>out calc'. run env calc = (out, calc') \<longrightarrow>
        calc' = calc \<or> calc' = calc\<lparr>calc_counter := calc_counter calc + 1\<rparr>)"
proof (intro conjI impI allI)
  assume "prepare_result env = Inr path \<and> base_cmd calc = Some cmd \<and> open_result env = Inr () \<and>
    popen_wait_result env = Inr returncode \<and> try_body env = Inl err \<and>
    backup_result env = Inr () \<and> clean_result env = Inr ()"
  then show "run env calc = (Exit, calc\<lparr>calc_counter := calc_counter calc + 1\<rparr>)"
    by (simp add: run_def except_handler_def finally_block_def)
next
  assume "popen_wait_result env = Inr returncode"
  then show "run (env\<lparr>popen_wait_result := Inr returncode'\<rparr>) calc = run env calc"
    by (simp add: run_def try_body_def except_handler_def finally_block_def
        split: sum.splits option.splits)
next
  fix out calc' assume "run env calc = (out, calc')"
  then show "calc' = calc \<or> calc' = calc\<lparr>calc_counter := calc_counter calc + 1\<rparr>"
    by (auto simp: run_def finally_block_def split: sum.splits option.splits)
qed

theorem run_exits_on_post_processing_failure_witness:
  "try_body demo_env = Inl ValueError
   \<and> run demo_env demo_calc = (Exit, demo_calc\<lparr>calc_counter := calc_counter demo_calc + 1\<rparr>)
   \<and> run (demo_env\<lparr>popen_wait_result := Inr 0\<rparr>) demo_calc = run demo_env demo_calc"
proof -
  have t: "try_body demo_env = Inl ValueError"
    by (simp add: try_body_def demo_env_def bind_def)
  have h: "prepare_result demo_env = Inr ''calculator_0_000_'' \<and>
      base_cmd demo_calc = Some ''prog'' \<and> open_result demo_env = Inr () \<and>
      popen_wait_result demo_env = Inr 1 \<and> try_body demo_env = Inl ValueError \<and>
      backup_result demo_env = Inr () \<and> clean_result demo_env = Inr ()"
    using t by (simp add: demo_env_def demo_calc_def)
  note inst = run_exits_on_post_processing_failure
      [of demo_env "''calculator_0_000_''" demo_calc "''prog''" 1 ValueError 0]
  have a: "run demo_env demo_calc = (Exit, demo_calc\<lparr>calc_counter := calc_counter demo_calc + 1\<rparr>)"
    using inst h by blast
  have "popen_wait_result demo_env = Inr 1"
    by (simp add: demo_env_def)
  with inst have b: "run (demo_env\<lparr>popen_wait_result := Inr 0\<rparr>) demo_calc = run demo_env demo_calc"
    by blast
  show ?thesis using t a b by simp
qed

end
